theory Spec2Isabelle
  imports Main "HOL-Library.Sublist"
begin

section \<open>Domain types (domain/types.py)\<close>

text \<open>
  A Python \<open>str\<close> is modelled as a \<open>string\<close>: one \<open>char\<close> stands for one code point in
  the range 0..255. \<open>Result[T, E]\<close> of the \<open>result\<close> package is the datatype below; a
  raised exception is modelled by its message \<open>str(e)\<close>, returned as \<open>Err\<close>, because the
  only handlers of the program turn the exception into exactly that text. The limits of
  the interpreter (recursion depth, size of integers printed or read) are not modelled.
\<close>

datatype ('a, 'e) Result = Ok 'a | Err 'e

record Line =
  number :: int
  content :: string

definition Line_length :: "Line \<Rightarrow> int" where
  "Line_length l = int (length (content l))"

definition Line_contains :: "Line \<Rightarrow> string \<Rightarrow> bool" where
  "Line_contains l text = sublist text (content l)"

definition Line_startswith :: "Line \<Rightarrow> string \<Rightarrow> bool" where
  "Line_startswith l text = prefix text (content l)"

definition Line_endswith :: "Line \<Rightarrow> string \<Rightarrow> bool" where
  "Line_endswith l text = suffix text (content l)"

text \<open>
  \<open>MatchContext.groups\<close> is declared \<open>dict[str, str]\<close>, but the regex matcher stores
  \<open>match.groupdict()\<close> in it, whose values are \<open>str\<close> or \<open>None\<close>. A key of the dictionary is
  a key of the map; the value \<open>None\<close> of Python is the inner \<open>None\<close>.
\<close>

record MatchContext =
  line :: Line
  groups :: "string \<rightharpoonup> string option"

type_synonym LineResult = "(Line, string) Result"
type_synonym MatchResult = "(MatchContext, string) Result"
type_synonym FilterResult = "(bool, string) Result"

section \<open>Runtime values of Python\<close>

text \<open>
  The values the evaluator handles: \<open>int\<close>, \<open>str\<close>, \<open>bool\<close>, and \<open>None\<close> (which
  \<open>groupdict()\<close> can put into a context).
\<close>

datatype pyval = PyInt int | PyStr string | PyBool bool | PyNone

fun type_name :: "pyval \<Rightarrow> string" where
  "type_name (PyInt i) = ''int''"
| "type_name (PyStr s) = ''str''"
| "type_name (PyBool b) = ''bool''"
| "type_name PyNone = ''NoneType''"

text \<open>\<open>bool\<close> is a subclass of \<open>int\<close>: \<open>True\<close> is 1 and \<open>False\<close> is 0 in every comparison.\<close>

fun py_num :: "pyval \<Rightarrow> int option" where
  "py_num (PyInt i) = Some i"
| "py_num (PyBool b) = Some (if b then 1 else 0)"
| "py_num (PyStr s) = None"
| "py_num PyNone = None"

text \<open>Strings are ordered lexicographically by code point.\<close>

fun str_lt :: "string \<Rightarrow> string \<Rightarrow> bool" where
  "str_lt [] [] = False"
| "str_lt [] (y # ys) = True"
| "str_lt (x # xs) [] = False"
| "str_lt (x # xs) (y # ys) =
     (if x = y then str_lt xs ys else (of_char x :: nat) < of_char y)"

text \<open>
  \<open>a < b\<close> and \<open>a <= b\<close>: \<open>None\<close> of the model is Python's \<open>TypeError\<close> (both operands
  answer \<open>NotImplemented\<close>).
\<close>

definition py_lt :: "pyval \<Rightarrow> pyval \<Rightarrow> bool option" where
  "py_lt a b =
     (case (a, b) of
        (PyStr s, PyStr t) \<Rightarrow> Some (str_lt s t)
      | _ \<Rightarrow> (case (py_num a, py_num b) of
                (Some x, Some y) \<Rightarrow> Some (x < y)
              | _ \<Rightarrow> None))"

definition py_le :: "pyval \<Rightarrow> pyval \<Rightarrow> bool option" where
  "py_le a b =
     (case (a, b) of
        (PyStr s, PyStr t) \<Rightarrow> Some (\<not> str_lt t s)
      | _ \<Rightarrow> (case (py_num a, py_num b) of
                (Some x, Some y) \<Rightarrow> Some (x \<le> y)
              | _ \<Rightarrow> None))"

definition py_gt :: "pyval \<Rightarrow> pyval \<Rightarrow> bool option" where
  "py_gt a b = py_lt b a"

definition py_ge :: "pyval \<Rightarrow> pyval \<Rightarrow> bool option" where
  "py_ge a b = py_le b a"

text \<open>\<open>a == b\<close> never raises: values of unrelated types are unequal.\<close>

definition py_eq :: "pyval \<Rightarrow> pyval \<Rightarrow> bool" where
  "py_eq a b =
     (case (a, b) of
        (PyStr s, PyStr t) \<Rightarrow> s = t
      | (PyNone, PyNone) \<Rightarrow> True
      | _ \<Rightarrow> (case (py_num a, py_num b) of
                (Some x, Some y) \<Rightarrow> x = y
              | _ \<Rightarrow> False))"

text \<open>\<open>bool(v)\<close>.\<close>

fun py_bool :: "pyval \<Rightarrow> bool" where
  "py_bool (PyBool b) = b"
| "py_bool (PyInt i) = (i \<noteq> 0)"
| "py_bool (PyStr s) = (s \<noteq> [])"
| "py_bool PyNone = False"

definition type_error :: "string \<Rightarrow> pyval \<Rightarrow> pyval \<Rightarrow> string" where
  "type_error op a b =
     [CHR 0x27] @ op @ [CHR 0x27] @ '' not supported between instances of ''
     @ [CHR 0x27] @ type_name a @ [CHR 0x27] @ '' and '' @ [CHR 0x27] @ type_name b @ [CHR 0x27]"

definition ordered :: "string \<Rightarrow> pyval \<Rightarrow> pyval \<Rightarrow> bool option \<Rightarrow> (pyval, string) Result" where
  "ordered op a b r = (case r of Some v \<Rightarrow> Ok (PyBool v) | None \<Rightarrow> Err (type_error op a b))"

section \<open>The where-clause language (domain/where_parser.py)\<close>

subsection \<open>Abstract syntax\<close>

datatype ASTNode =
    Literal pyval
  | Attribute string string
  | MethodCall string string "string list"
  | GroupAccess string
  | BinaryOp ASTNode string ASTNode
  | UnaryOp string ASTNode

subsection \<open>Tokenizer\<close>

abbreviation dquote :: char where "dquote \<equiv> CHR 0x22"
abbreviation squote :: char where "squote \<equiv> CHR 0x27"
abbreviation backslash :: char where "backslash \<equiv> CHR 0x5C"
abbreviation newline :: char where "newline \<equiv> CHR 0x0A"

text \<open>
  The token types are the names of \<open>TOKEN_PATTERNS\<close>. The fields \<open>type\<close>, \<open>value\<close> and
  \<open>position\<close> of a \<open>Token\<close> are \<open>tok_type\<close>, \<open>tok_value\<close> and \<open>tok_position\<close>.
\<close>

datatype token_type =
  NUMBER | STRING | GTE | LTE | EQ | NEQ | GT | LT | AND | OR | NOT | IDENT
  | LPAREN | RPAREN | DOT | COMMA | WHITESPACE

datatype Token = Token (tok_type: token_type) (tok_value: string) (tok_position: nat)

text \<open>
  The character classes of the patterns, on the code points 0..255: \<open>[0-9]\<close> (which is
  also the class of decimal digits there), \<open>[a-zA-Z_]\<close>, \<open>[a-zA-Z0-9_]\<close>, the word
  characters that decide a word boundary, and the whitespace characters.
\<close>

definition is_digit :: "char \<Rightarrow> bool" where
  "is_digit c = (c \<in> set ''0123456789'')"

definition is_ident_start :: "char \<Rightarrow> bool" where
  "is_ident_start c = (c \<in> set ''abcdefghijklmnopqrstuvwxyzABCDEFGHIJKLMNOPQRSTUVWXYZ_'')"

definition is_ident_char :: "char \<Rightarrow> bool" where
  "is_ident_char c = (is_ident_start c \<or> is_digit c)"

definition is_word :: "char \<Rightarrow> bool" where
  "is_word c = (is_ident_char c \<or>
     (let n = (of_char c :: nat) in
        n \<in> {170, 178, 179, 181, 185, 186, 188, 189, 190} \<or> (192 \<le> n \<and> n \<noteq> 215 \<and> n \<noteq> 247)))"

definition is_space :: "char \<Rightarrow> bool" where
  "is_space c = ((of_char c :: nat) \<in> {9, 10, 11, 12, 13, 28, 29, 30, 31, 32, 133, 160})"

text \<open>Decimal text of a natural number and of an integer (\<open>str(n)\<close>).\<close>

fun str_of_nat :: "nat \<Rightarrow> string" where
  "str_of_nat n =
     (if n < 10 then [''0123456789'' ! n]
      else str_of_nat (n div 10) @ [''0123456789'' ! (n mod 10)])"

declare str_of_nat.simps [simp del]

definition str_of_int :: "int \<Rightarrow> string" where
  "str_of_int i = (if i < 0 then CHR ''-'' # str_of_nat (nat (- i)) else str_of_nat (nat i))"

subsection \<open>The token patterns\<close>

text \<open>
  Each pattern of \<open>TOKEN_PATTERNS\<close> is a function from the text at the current offset
  (and, for the word boundaries of the keywords, whether the character before the offset
  is a word character) to the length of its match there, \<open>None\<close> when it does not match.
  \<open>string_body\<close> is the part of the STRING pattern after the opening quote \<open>q\<close>: a
  character other than \<open>q\<close> and the backslash, or a backslash and any character but a
  newline, repeated, and then \<open>q\<close>.
\<close>

definition match_NUMBER :: "string \<Rightarrow> nat option" where
  "match_NUMBER s =
     (case s of
        [] \<Rightarrow> None
      | c # cs \<Rightarrow>
          if c = CHR ''-'' then
            (case takeWhile is_digit cs of [] \<Rightarrow> None | d # ds \<Rightarrow> Some (Suc (length (d # ds))))
          else
            (case takeWhile is_digit s of [] \<Rightarrow> None | d # ds \<Rightarrow> Some (length (d # ds))))"

fun string_body :: "char \<Rightarrow> string \<Rightarrow> nat option" where
  "string_body q [] = None"
| "string_body q [c] = (if c = q then Some 1 else None)"
| "string_body q (c # d # cs) =
     (if c = q then Some 1
      else if c = backslash then
        (if d = newline then None else map_option (\<lambda>n. n + 2) (string_body q cs))
      else map_option Suc (string_body q (d # cs)))"

definition match_STRING :: "string \<Rightarrow> nat option" where
  "match_STRING s =
     (case s of
        [] \<Rightarrow> None
      | c # cs \<Rightarrow>
          if c = dquote \<or> c = squote then map_option Suc (string_body c cs) else None)"

definition match_literal :: "string \<Rightarrow> string \<Rightarrow> nat option" where
  "match_literal lit s = (if lit \<noteq> [] \<and> prefix lit s then Some (length lit) else None)"

definition match_keyword :: "string \<Rightarrow> bool \<Rightarrow> string \<Rightarrow> nat option" where
  "match_keyword kw prev_word s =
     (if kw \<noteq> [] \<and> \<not> prev_word \<and> prefix kw s
         \<and> (case drop (length kw) s of [] \<Rightarrow> True | c # cs \<Rightarrow> \<not> is_word c)
      then Some (length kw) else None)"

definition match_IDENT :: "string \<Rightarrow> nat option" where
  "match_IDENT s =
     (case s of
        [] \<Rightarrow> None
      | c # cs \<Rightarrow> if is_ident_start c then Some (Suc (length (takeWhile is_ident_char cs))) else None)"

definition match_WHITESPACE :: "string \<Rightarrow> nat option" where
  "match_WHITESPACE s =
     (case takeWhile is_space s of [] \<Rightarrow> None | c # cs \<Rightarrow> Some (length (c # cs)))"

definition TOKEN_PATTERNS :: "(token_type \<times> (bool \<Rightarrow> string \<Rightarrow> nat option)) list" where
  "TOKEN_PATTERNS =
     [(NUMBER, \<lambda>w. match_NUMBER),
      (STRING, \<lambda>w. match_STRING),
      (GTE, \<lambda>w. match_literal ''>=''),
      (LTE, \<lambda>w. match_literal ''<=''),
      (EQ, \<lambda>w. match_literal ''==''),
      (NEQ, \<lambda>w. match_literal ''!=''),
      (GT, \<lambda>w. match_literal ''>''),
      (LT, \<lambda>w. match_literal ''<''),
      (AND, match_keyword ''and''),
      (OR, match_keyword ''or''),
      (NOT, match_keyword ''not''),
      (IDENT, \<lambda>w. match_IDENT),
      (LPAREN, \<lambda>w. match_literal ''(''),
      (RPAREN, \<lambda>w. match_literal '')''),
      (DOT, \<lambda>w. match_literal ''.''),
      (COMMA, \<lambda>w. match_literal '',''),
      (WHITESPACE, \<lambda>w. match_WHITESPACE)]"

text \<open>The alternation: the first pattern that matches at the offset wins.\<close>

fun first_match :: "(token_type \<times> (bool \<Rightarrow> string \<Rightarrow> nat option)) list \<Rightarrow> bool \<Rightarrow> string
    \<Rightarrow> (token_type \<times> nat) option" where
  "first_match [] prev_word s = None"
| "first_match ((name, p) # ps) prev_word s =
     (case p prev_word s of Some n \<Rightarrow> Some (name, n) | None \<Rightarrow> first_match ps prev_word s)"

definition TOKEN_RE :: "bool \<Rightarrow> string \<Rightarrow> (token_type \<times> nat) option" where
  "TOKEN_RE = first_match TOKEN_PATTERNS"

lemma string_body_pos: "string_body q s = Some n \<Longrightarrow> 0 < n"
  by (induction q s arbitrary: n rule: string_body.induct) (auto split: if_splits)

lemma match_NUMBER_pos: "match_NUMBER s = Some n \<Longrightarrow> 0 < n"
  by (auto simp: match_NUMBER_def split: list.splits if_splits)

lemma match_STRING_pos: "match_STRING s = Some n \<Longrightarrow> 0 < n"
  by (auto simp: match_STRING_def split: list.splits if_splits)

lemma match_literal_pos: "match_literal lit s = Some n \<Longrightarrow> 0 < n"
  by (auto simp: match_literal_def split: if_splits)

lemma match_keyword_pos: "match_keyword kw w s = Some n \<Longrightarrow> 0 < n"
  by (auto simp: match_keyword_def split: if_splits)

lemma match_IDENT_pos: "match_IDENT s = Some n \<Longrightarrow> 0 < n"
  by (auto simp: match_IDENT_def split: list.splits if_splits)

lemma match_WHITESPACE_pos: "match_WHITESPACE s = Some n \<Longrightarrow> 0 < n"
  by (auto simp: match_WHITESPACE_def split: list.splits)

lemma first_match_pos:
  "first_match ps w s = Some (ty, n) \<Longrightarrow> list_all (\<lambda>(name, p). \<forall>m. p w s = Some m \<longrightarrow> 0 < m) ps
   \<Longrightarrow> 0 < n"
  by (induction ps w s rule: first_match.induct) (auto split: option.splits)

lemma TOKEN_RE_pos: "TOKEN_RE w s = Some (ty, n) \<Longrightarrow> 0 < n"
  unfolding TOKEN_RE_def
  by (erule first_match_pos)
     (simp add: TOKEN_PATTERNS_def match_NUMBER_pos match_STRING_pos match_literal_pos
        match_keyword_pos match_IDENT_pos match_WHITESPACE_pos)

text \<open>
  \<open>TOKEN_RE.finditer(expression)\<close>: the matches from left to right. At an offset where no
  pattern matches the scan moves on by one character, so such a character is in no
  match. \<open>lastgroup\<close> is the name of the pattern that matched; every alternative of
  \<open>TOKEN_RE\<close> is a named group, so it is never \<open>None\<close>.
\<close>

record Match =
  lastgroup :: "token_type option"
  group :: string
  m_start :: nat
  m_end :: nat

function finditer :: "bool \<Rightarrow> nat \<Rightarrow> string \<Rightarrow> Match list" where
  "finditer prev_word i [] = []"
| "finditer prev_word i (c # cs) =
     (case TOKEN_RE prev_word (c # cs) of
        None \<Rightarrow> finditer (is_word c) (Suc i) cs
      | Some (ty, n) \<Rightarrow>
          \<lparr>lastgroup = Some ty, group = take n (c # cs), m_start = i, m_end = i + n\<rparr>
          # finditer (is_word (last (take n (c # cs)))) (i + n) (drop n (c # cs)))"
  by pat_completeness auto
termination
  by (relation "measure (\<lambda>(w, i, s). length s)") (auto dest: TOKEN_RE_pos)

text \<open>The body of the \<open>for\<close> loop of \<open>tokenize\<close>, with its variables \<open>tokens\<close> and \<open>position\<close>.\<close>

fun tokenize_loop :: "Match list \<Rightarrow> Token list \<Rightarrow> nat \<Rightarrow> (Token list \<times> nat, string) Result" where
  "tokenize_loop [] tokens position = Ok (tokens, position)"
| "tokenize_loop (m # ms) tokens position =
     (if lastgroup m = Some WHITESPACE then tokenize_loop ms tokens position
      else
        (case lastgroup m of
           None \<Rightarrow> Err (''Invalid character at position '' @ str_of_nat (m_start m) @ '': '' @ group m)
         | Some token_type \<Rightarrow>
             tokenize_loop ms (tokens @ [Token token_type (group m) (m_start m)]) (m_end m)))"

definition tokenize :: "string \<Rightarrow> (Token list, string) Result" where
  "tokenize expression =
     (case tokenize_loop (finditer False 0 expression) [] 0 of
        Err e \<Rightarrow> Err e
      | Ok (tokens, position) \<Rightarrow>
          if position < length expression then
            Err (''Unexpected character at position '' @ str_of_nat position @ '': ''
                 @ [expression ! position])
          else Ok tokens)"

subsection \<open>Parser\<close>

text \<open>
  The parser's state is the list of the tokens from \<open>self.position\<close> on. \<open>consume\<close>
  returns the current token and the tokens after it; where the parser has just tested
  the type of the current token, the \<open>consume\<close> of that type is written as the step to
  the rest of the list.
\<close>

fun type_str :: "token_type \<Rightarrow> string" where
  "type_str NUMBER = ''NUMBER''" | "type_str STRING = ''STRING''" | "type_str GTE = ''GTE''"
| "type_str LTE = ''LTE''" | "type_str EQ = ''EQ''" | "type_str NEQ = ''NEQ''"
| "type_str GT = ''GT''" | "type_str LT = ''LT''" | "type_str AND = ''AND''"
| "type_str OR = ''OR''" | "type_str NOT = ''NOT''" | "type_str IDENT = ''IDENT''"
| "type_str LPAREN = ''LPAREN''" | "type_str RPAREN = ''RPAREN''" | "type_str DOT = ''DOT''"
| "type_str COMMA = ''COMMA''" | "type_str WHITESPACE = ''WHITESPACE''"

definition consume :: "token_type option \<Rightarrow> Token list \<Rightarrow> (Token \<times> Token list, string) Result" where
  "consume expected_type tokens =
     (case tokens of
        [] \<Rightarrow> Err ''Unexpected end of expression''
      | token # rest \<Rightarrow>
          (case expected_type of
             None \<Rightarrow> Ok (token, rest)
           | Some ty \<Rightarrow>
               if tok_type token \<noteq> ty then
                 Err (''Expected '' @ type_str ty @ '', got '' @ type_str (tok_type token)
                      @ '' at position '' @ str_of_nat (tok_position token))
               else Ok (token, rest)))"

text \<open>
  \<open>s.replace(old, new)\<close>: the occurrences of \<open>old\<close> are replaced from left to right,
  without overlap.
\<close>

function replace_nonempty :: "string \<Rightarrow> string \<Rightarrow> string \<Rightarrow> string" where
  "replace_nonempty old new [] = []"
| "replace_nonempty old new (c # cs) =
     (if old \<noteq> [] \<and> prefix old (c # cs) then new @ replace_nonempty old new (drop (length old) (c # cs))
      else c # replace_nonempty old new cs)"
  by pat_completeness auto
termination
  by (relation "measure (\<lambda>(old, new, s). length s)") auto

definition py_replace :: "string \<Rightarrow> string \<Rightarrow> string \<Rightarrow> string" where
  "py_replace old new s =
     (if old = [] then new @ concat (map (\<lambda>c. c # new) s) else replace_nonempty old new s)"

text \<open>The value of a STRING token: \<open>value[1:-1]\<close> and the two \<open>replace\<close> calls.\<close>

definition unquote :: "string \<Rightarrow> string" where
  "unquote text =
     py_replace [backslash, squote] [squote] (py_replace [backslash, dquote] [dquote] (butlast (tl text)))"

text \<open>
  \<open>int(token.value)\<close>. The tokenizer produces NUMBER tokens of the form \<open>-?[0-9]+\<close> only,
  and on these \<open>int\<close> is the decimal value. For any other text the model answers with the
  \<open>ValueError\<close> of \<open>int\<close>; the few other forms that \<open>int\<close> accepts (a leading plus sign,
  blanks around the number, underscores between digits) never reach the parser.
\<close>

definition py_int :: "string \<Rightarrow> (int, string) Result" where
  "py_int s =
     (let digits = (case s of c # cs \<Rightarrow> if c = CHR ''-'' then cs else s | [] \<Rightarrow> s);
          n = foldl (\<lambda>acc d. 10 * acc + (of_char d - 48)) (0::nat) digits
      in if digits \<noteq> [] \<and> list_all is_digit digits then
           Ok (if digits = s then int n else - int n)
         else Err (''invalid literal for int() with base 10: '' @ [squote] @ s @ [squote]))"

text \<open>
  The dictionary \<open>op_map\<close> of \<open>parse_cmp_expr\<close>; its keys are the token types of the
  test \<open>token.type in (...)\<close> before it.
\<close>

fun op_map :: "token_type \<Rightarrow> string option" where
  "op_map GT = Some ''>''" | "op_map LT = Some ''<''" | "op_map GTE = Some ''>=''"
| "op_map LTE = Some ''<=''" | "op_map EQ = Some ''==''" | "op_map NEQ = Some ''!=''"
| "op_map ty = None"

type_synonym parse_result = "(ASTNode \<times> Token list, string) Result"

text \<open>
  The IDENT branch of \<open>parse_atom\<close>, from the inside out: the argument list of a method
  call after its opening parenthesis; the member after the dot; the call of a bare
  function after its opening parenthesis; and the branch itself after the identifier.
\<close>

definition parse_call :: "string \<Rightarrow> string \<Rightarrow> Token list \<Rightarrow> parse_result" where
  "parse_call ident member tokens =
     (let (args, rest) =
            (case tokens of
               [] \<Rightarrow> ([], tokens)
             | t # ts \<Rightarrow> if tok_type t = STRING then ([unquote (tok_value t)], ts) else ([], tokens))
      in case consume (Some RPAREN) rest of
           Err e \<Rightarrow> Err e
         | Ok (r, rest') \<Rightarrow> Ok (MethodCall ident member args, rest'))"

definition parse_member :: "string \<Rightarrow> Token list \<Rightarrow> parse_result" where
  "parse_member ident tokens =
     (case consume (Some IDENT) tokens of
        Err e \<Rightarrow> Err e
      | Ok (m, rest) \<Rightarrow>
          (case rest of
             t # rest' \<Rightarrow>
               if tok_type t = LPAREN then parse_call ident (tok_value m) rest'
               else Ok (Attribute ident (tok_value m), rest)
           | [] \<Rightarrow> Ok (Attribute ident (tok_value m), rest)))"

definition parse_function :: "string \<Rightarrow> Token list \<Rightarrow> parse_result" where
  "parse_function ident tokens =
     (if ident = ''group'' then
        (case tokens of
           t # rest \<Rightarrow>
             if tok_type t = STRING then
               (case consume (Some RPAREN) rest of
                  Err e \<Rightarrow> Err e
                | Ok (r, rest') \<Rightarrow> Ok (GroupAccess (unquote (tok_value t)), rest'))
             else Err ''group() requires string argument''
         | [] \<Rightarrow> Err ''group() requires string argument'')
      else Err (''Unknown function: '' @ ident))"

definition parse_ident :: "string \<Rightarrow> Token list \<Rightarrow> parse_result" where
  "parse_ident ident tokens =
     (case tokens of
        t # rest \<Rightarrow>
          if tok_type t = DOT then parse_member ident rest
          else if tok_type t = LPAREN then parse_function ident rest
          else Err (''Unexpected identifier: '' @ ident)
      | [] \<Rightarrow> Err (''Unexpected identifier: '' @ ident))"

text \<open>
  The recursive descent. \<open>or_loop\<close> and \<open>and_loop\<close> are the \<open>while\<close> loops of
  \<open>parse_or_expr\<close> and \<open>parse_and_expr\<close>, with \<open>left\<close> as their variable.
\<close>

function parse_or_expr :: "Token list \<Rightarrow> parse_result"
  and or_loop :: "ASTNode \<Rightarrow> Token list \<Rightarrow> parse_result"
  and parse_and_expr :: "Token list \<Rightarrow> parse_result"
  and and_loop :: "ASTNode \<Rightarrow> Token list \<Rightarrow> parse_result"
  and parse_cmp_expr :: "Token list \<Rightarrow> parse_result"
  and parse_term :: "Token list \<Rightarrow> parse_result"
  and parse_atom :: "Token list \<Rightarrow> parse_result"
where
  "parse_or_expr tokens =
     (case parse_and_expr tokens of
        Err e \<Rightarrow> Err e
      | Ok (left, rest) \<Rightarrow> or_loop left rest)"
| "or_loop left [] = Ok (left, [])"
| "or_loop left (t # rest) =
     (if tok_type t = OR then
        (case parse_and_expr rest of
           Err e \<Rightarrow> Err e
         | Ok (right, rest') \<Rightarrow> or_loop (BinaryOp left ''or'' right) rest')
      else Ok (left, t # rest))"
| "parse_and_expr tokens =
     (case parse_cmp_expr tokens of
        Err e \<Rightarrow> Err e
      | Ok (left, rest) \<Rightarrow> and_loop left rest)"
| "and_loop left [] = Ok (left, [])"
| "and_loop left (t # rest) =
     (if tok_type t = AND then
        (case parse_cmp_expr rest of
           Err e \<Rightarrow> Err e
         | Ok (right, rest') \<Rightarrow> and_loop (BinaryOp left ''and'' right) rest')
      else Ok (left, t # rest))"
| "parse_cmp_expr tokens =
     (case parse_term tokens of
        Err e \<Rightarrow> Err e
      | Ok (left, rest) \<Rightarrow>
          (case rest of
             [] \<Rightarrow> Ok (left, rest)
           | op_token # rest' \<Rightarrow>
               (case op_map (tok_type op_token) of
                  None \<Rightarrow> Ok (left, rest)
                | Some op \<Rightarrow>
                    (case parse_term rest' of
                       Err e \<Rightarrow> Err e
                     | Ok (right, rest'') \<Rightarrow> Ok (BinaryOp left op right, rest'')))))"
| "parse_term [] = parse_atom []"
| "parse_term (token # rest) =
     (if tok_type token = NOT then
        (case parse_term rest of
           Err e \<Rightarrow> Err e
         | Ok (operand, rest') \<Rightarrow> Ok (UnaryOp ''not'' operand, rest'))
      else parse_atom (token # rest))"
| "parse_atom [] = Err ''Unexpected end of expression''"
| "parse_atom (token # rest) =
     (if tok_type token = LPAREN then
        (case parse_or_expr rest of
           Err e \<Rightarrow> Err e
         | Ok (expr, rest') \<Rightarrow>
             (case consume (Some RPAREN) rest' of
                Err e \<Rightarrow> Err e
              | Ok (r, rest'') \<Rightarrow> Ok (expr, rest'')))
      else if tok_type token = NUMBER then
        (case py_int (tok_value token) of
           Err e \<Rightarrow> Err e
         | Ok n \<Rightarrow> Ok (Literal (PyInt n), rest))
      else if tok_type token = STRING then Ok (Literal (PyStr (unquote (tok_value token))), rest)
      else if tok_type token = IDENT then parse_ident (tok_value token) rest
      else Err (''Unexpected token: '' @ type_str (tok_type token)))"
  by pat_completeness auto

text \<open>
  Termination: no parsing function returns more tokens than it was given, so every loop
  iteration and every nested call works on a shorter list.
\<close>

lemma consume_length: "consume expected tokens = Ok (t, rest) \<Longrightarrow> length rest < length tokens"
  by (auto simp: consume_def split: list.splits option.splits if_splits)

lemma parse_call_length: "parse_call ident member tokens = Ok (a, rest) \<Longrightarrow> length rest < length tokens"
  by (auto simp: parse_call_def dest: consume_length split: list.splits if_splits Result.splits)

lemma parse_member_length: "parse_member ident tokens = Ok (a, rest) \<Longrightarrow> length rest < length tokens"
  by (auto simp: parse_member_def dest!: consume_length parse_call_length
        split: list.splits if_splits Result.splits)

lemma parse_function_length: "parse_function ident tokens = Ok (a, rest) \<Longrightarrow> length rest < length tokens"
  by (auto simp: parse_function_def dest!: consume_length split: list.splits if_splits Result.splits)

lemma parse_ident_length: "parse_ident ident tokens = Ok (a, rest) \<Longrightarrow> length rest < length tokens"
  by (auto simp: parse_ident_def dest!: parse_member_length parse_function_length
        split: list.splits if_splits)

lemma parse_dom_length:
  "parse_or_expr_or_loop_parse_and_expr_and_loop_parse_cmp_expr_parse_term_parse_atom_dom (Inl (Inl ts1))
     \<Longrightarrow> parse_or_expr ts1 = Ok (a1, r1) \<Longrightarrow> length r1 \<le> length ts1"
  "parse_or_expr_or_loop_parse_and_expr_and_loop_parse_cmp_expr_parse_term_parse_atom_dom (Inl (Inr (Inl (l2, ts2))))
     \<Longrightarrow> or_loop l2 ts2 = Ok (a2, r2) \<Longrightarrow> length r2 \<le> length ts2"
  "parse_or_expr_or_loop_parse_and_expr_and_loop_parse_cmp_expr_parse_term_parse_atom_dom (Inl (Inr (Inr ts3)))
     \<Longrightarrow> parse_and_expr ts3 = Ok (a3, r3) \<Longrightarrow> length r3 \<le> length ts3"
  "parse_or_expr_or_loop_parse_and_expr_and_loop_parse_cmp_expr_parse_term_parse_atom_dom (Inr (Inl (Inl (l4, ts4))))
     \<Longrightarrow> and_loop l4 ts4 = Ok (a4, r4) \<Longrightarrow> length r4 \<le> length ts4"
  "parse_or_expr_or_loop_parse_and_expr_and_loop_parse_cmp_expr_parse_term_parse_atom_dom (Inr (Inl (Inr ts5)))
     \<Longrightarrow> parse_cmp_expr ts5 = Ok (a5, r5) \<Longrightarrow> length r5 \<le> length ts5"
  "parse_or_expr_or_loop_parse_and_expr_and_loop_parse_cmp_expr_parse_term_parse_atom_dom (Inr (Inr (Inl ts6)))
     \<Longrightarrow> parse_term ts6 = Ok (a6, r6) \<Longrightarrow> length r6 \<le> length ts6"
  "parse_or_expr_or_loop_parse_and_expr_and_loop_parse_cmp_expr_parse_term_parse_atom_dom (Inr (Inr (Inr ts7)))
     \<Longrightarrow> parse_atom ts7 = Ok (a7, r7) \<Longrightarrow> length r7 \<le> length ts7"
proof (induct arbitrary: a1 r1 and a2 r2 and a3 r3 and a4 r4 and a5 r5 and a6 r6 and a7 r7
    rule: parse_or_expr_or_loop_parse_and_expr_and_loop_parse_cmp_expr_parse_term_parse_atom.pinduct)
  case (1 tokens)
  then show ?case
    by (fastforce simp: parse_or_expr.psimps split: Result.splits prod.splits)
next
  case (2 left)
  then show ?case by (simp add: or_loop.psimps)
next
  case (3 left t rest)
  then show ?case
    by (fastforce simp: or_loop.psimps split: Result.splits prod.splits if_splits)
next
  case (4 tokens)
  then show ?case
    by (fastforce simp: parse_and_expr.psimps split: Result.splits prod.splits)
next
  case (5 left)
  then show ?case by (simp add: and_loop.psimps)
next
  case (6 left t rest)
  then show ?case
    by (fastforce simp: and_loop.psimps split: Result.splits prod.splits if_splits)
next
  case (7 tokens)
  then show ?case
    by (fastforce simp: parse_cmp_expr.psimps split: Result.splits prod.splits list.splits option.splits)
next
  case 8
  then show ?case by (simp add: parse_term.psimps)
next
  case (9 token rest)
  then show ?case
    by (fastforce simp: parse_term.psimps split: Result.splits prod.splits if_splits)
next
  case 10
  then show ?case by (simp add: parse_atom.psimps)
next
  case (11 token rest)
  then show ?case
    by (fastforce simp: parse_atom.psimps dest: consume_length parse_ident_length
          split: Result.splits prod.splits if_splits)
qed

termination parse_or_expr
  apply (relation "inv_image (less_than <*lex*> less_than)
      (\<lambda>x. case x of
         Inl (Inl ts) \<Rightarrow> (length ts, 6::nat)
       | Inl (Inr (Inl (l, ts))) \<Rightarrow> (length ts, 5)
       | Inl (Inr (Inr ts)) \<Rightarrow> (length ts, 4)
       | Inr (Inl (Inl (l, ts))) \<Rightarrow> (length ts, 3)
       | Inr (Inl (Inr ts)) \<Rightarrow> (length ts, 2)
       | Inr (Inr (Inl ts)) \<Rightarrow> (length ts, 1)
       | Inr (Inr (Inr ts)) \<Rightarrow> (length ts, 0))")
  apply (auto dest!: parse_dom_length)
  done

declare parse_or_expr.simps [simp del] parse_and_expr.simps [simp del]
  parse_cmp_expr.simps [simp del]

text \<open>\<open>Parser.parse\<close>: the whole expression, then no token may be left.\<close>

definition Parser_parse :: "Token list \<Rightarrow> (ASTNode, string) Result" where
  "Parser_parse tokens =
     (case parse_or_expr tokens of
        Err e \<Rightarrow> Err e
      | Ok (ast, rest) \<Rightarrow>
          (case rest of
             [] \<Rightarrow> Ok ast
           | t # ts \<Rightarrow> Err (''Unexpected token after expression: '' @ tok_value t)))"

definition parse_where_expression :: "string \<Rightarrow> (ASTNode, string) Result" where
  "parse_where_expression expr =
     (case tokenize expr of
        Err e \<Rightarrow> Err e
      | Ok tokens \<Rightarrow> Parser_parse tokens)"

subsection \<open>Evaluator\<close>

text \<open>The \<open>match op\<close> of the \<open>BinaryOp\<close> case, on the two operand values.\<close>

definition binary_op :: "string \<Rightarrow> pyval \<Rightarrow> pyval \<Rightarrow> (pyval, string) Result" where
  "binary_op op left_val right_val =
     (if op = ''>'' then ordered op left_val right_val (py_gt left_val right_val)
      else if op = ''<'' then ordered op left_val right_val (py_lt left_val right_val)
      else if op = ''>='' then ordered op left_val right_val (py_ge left_val right_val)
      else if op = ''<='' then ordered op left_val right_val (py_le left_val right_val)
      else if op = ''=='' then Ok (PyBool (py_eq left_val right_val))
      else if op = ''!='' then Ok (PyBool (\<not> py_eq left_val right_val))
      else if op = ''and'' then Ok (PyBool (py_bool left_val \<and> py_bool right_val))
      else if op = ''or'' then Ok (PyBool (py_bool left_val \<or> py_bool right_val))
      else Err (''Unknown binary operator: '' @ op))"

text \<open>
  The cases \<open>contains\<close>, \<open>startswith\<close> and \<open>endswith\<close> of \<open>match method\<close>: the test of the
  number of arguments, then the method of \<open>Line\<close> on the one argument.
\<close>

definition line_method :: "string \<Rightarrow> (Line \<Rightarrow> string \<Rightarrow> bool) \<Rightarrow> Line \<Rightarrow> string list
    \<Rightarrow> (pyval, string) Result" where
  "line_method name m l args =
     (case args of
        [a] \<Rightarrow> Ok (PyBool (m l a))
      | _ \<Rightarrow> Err (name @ ''() requires exactly 1 argument''))"

fun evaluate_node :: "ASTNode \<Rightarrow> MatchContext \<Rightarrow> (pyval, string) Result" where
  "evaluate_node (Literal v) context = Ok v"
| "evaluate_node (Attribute obj attr) context =
     (if obj = ''line'' then
        (if attr = ''length'' then Ok (PyInt (Line_length (line context)))
         else if attr = ''number'' then Ok (PyInt (number (line context)))
         else if attr = ''content'' then Ok (PyStr (content (line context)))
         else Err (''Unknown line attribute: '' @ attr))
      else Err (''Unknown object: '' @ obj))"
| "evaluate_node (MethodCall obj method args) context =
     (if obj = ''line'' then
        (if method = ''contains'' then line_method method Line_contains (line context) args
         else if method = ''startswith'' then line_method method Line_startswith (line context) args
         else if method = ''endswith'' then line_method method Line_endswith (line context) args
         else Err (''Unknown line method: '' @ method))
      else Err (''Unknown object: '' @ obj))"
| "evaluate_node (GroupAccess name) context =
     (case groups context name of
        Some (Some s) \<Rightarrow> Ok (PyStr s)
      | Some None \<Rightarrow> Ok PyNone
      | None \<Rightarrow> Err (''Regex group not found: '' @ name))"
| "evaluate_node (BinaryOp left op right) context =
     (case evaluate_node left context of
        Err e \<Rightarrow> Err e
      | Ok left_val \<Rightarrow>
          (case evaluate_node right context of
             Err e \<Rightarrow> Err e
           | Ok right_val \<Rightarrow> binary_op op left_val right_val))"
| "evaluate_node (UnaryOp op operand) context =
     (case evaluate_node operand context of
        Err e \<Rightarrow> Err e
      | Ok operand_val \<Rightarrow>
          (if op = ''not'' then Ok (PyBool (\<not> py_bool operand_val))
           else Err (''Unknown unary operator: '' @ op)))"

definition evaluate_where :: "ASTNode \<Rightarrow> MatchContext \<Rightarrow> (pyval, string) Result" where
  "evaluate_where ast context =
     (case evaluate_node ast context of
        Ok result \<Rightarrow> Ok result
      | Err e \<Rightarrow> Err (''Evaluation error: '' @ e))"

section \<open>The composite filter (domain/filter.py)\<close>

text \<open>The loop that parses every expression; it returns at the first parse failure.\<close>

fun parse_all :: "string list \<Rightarrow> ASTNode list \<Rightarrow> (ASTNode list, string) Result" where
  "parse_all [] parsed_asts = Ok parsed_asts"
| "parse_all (expr # exprs) parsed_asts =
     (case parse_where_expression expr of
        Ok ast \<Rightarrow> parse_all exprs (parsed_asts @ [ast])
      | Err error \<Rightarrow> Err error)"

fun composite_filter :: "ASTNode list \<Rightarrow> MatchContext \<Rightarrow> FilterResult" where
  "composite_filter [] context = Ok True"
| "composite_filter (ast # asts) context =
     (case evaluate_where ast context of
        Ok v \<Rightarrow> if \<not> py_bool v then Ok False else composite_filter asts context
      | Err error \<Rightarrow> Err error)"

definition create_filter :: "string list \<Rightarrow> MatchContext \<Rightarrow> FilterResult" where
  "create_filter expressions =
     (if expressions = [] then (\<lambda>context. Ok True)
      else
        (case parse_all expressions [] of
           Err error \<Rightarrow> (\<lambda>context. Err (''Parse error: '' @ error))
         | Ok parsed_asts \<Rightarrow> composite_filter parsed_asts))"

section \<open>Matchers (domain/matcher.py)\<close>

record MatchConfig =
  pattern :: string
  case_sensitive :: bool

text \<open>
  The regex engine is Python's \<open>re\<close> library, not code of the program. A compiled regex is
  its \<open>search\<close> on a text: \<open>None\<close> when nothing matches, otherwise the \<open>groupdict()\<close> of
  the match, in which a named group that took no part in the match has the value \<open>None\<close>.
  \<open>re.compile\<close> is a parameter: it receives the pattern and whether \<open>re.IGNORECASE\<close> is
  set. It returns the compiled regex, or raises \<open>re.error\<close>, or raises another exception
  (\<open>OverflowError\<close> for a repetition count that is too large); the text is \<open>str(e)\<close>.
\<close>

type_synonym compiled_regex = "string \<Rightarrow> (string \<rightharpoonup> string option) option"

datatype compile_result = Compiled compiled_regex | Re_error string | Other_exception string

type_synonym re_compile = "string \<Rightarrow> bool \<Rightarrow> compile_result"

text \<open>
  \<open>_create_regex_matcher\<close> catches \<open>re.error\<close> only, and \<open>run\<close> calls \<open>create_matcher\<close>
  outside its \<open>try\<close>. An exception that no handler of the program catches ends the call
  that raised it and every caller: such a call \<open>Raises\<close> the text of the exception, any
  other call \<open>Returns\<close> its value.
\<close>

datatype 'a outcome = Returns 'a | Raises string

definition is_regex_pattern :: "string \<Rightarrow> bool" where
  "is_regex_pattern p = (length p \<ge> 3 \<and> prefix ''/'' p \<and> suffix ''/'' p)"

definition no_match :: "Line \<Rightarrow> MatchResult" where
  "no_match l = Err (''No match at line '' @ str_of_int (number l))"

definition create_regex_matcher :: "re_compile \<Rightarrow> MatchConfig \<Rightarrow> (Line \<Rightarrow> MatchResult) outcome" where
  "create_regex_matcher compile config =
     (let regex_pattern = butlast (tl (pattern config)) in
      case compile regex_pattern (\<not> case_sensitive config) of
        Re_error e \<Rightarrow> Returns (\<lambda>l. Err (''Invalid regex pattern: '' @ e))
      | Other_exception e \<Rightarrow> Raises e
      | Compiled compiled_regex \<Rightarrow>
          Returns (\<lambda>l. case compiled_regex (content l) of
                           Some gs \<Rightarrow> Ok \<lparr>line = l, groups = gs\<rparr>
                         | None \<Rightarrow> no_match l))"

text \<open>\<open>str.lower()\<close> on the code points 0..255.\<close>

definition lower_char :: "char \<Rightarrow> char" where
  "lower_char c =
     (let n = (of_char c :: nat) in
      if (65 \<le> n \<and> n \<le> 90) \<or> (192 \<le> n \<and> n \<le> 222 \<and> n \<noteq> 215) then char_of (n + 32) else c)"

definition lower :: "string \<Rightarrow> string" where
  "lower s = map lower_char s"

definition create_literal_matcher :: "MatchConfig \<Rightarrow> Line \<Rightarrow> MatchResult" where
  "create_literal_matcher config =
     (let search_pattern = (if case_sensitive config then pattern config else lower (pattern config));
          transform = (if case_sensitive config then (\<lambda>s. s) else lower)
      in (\<lambda>l. if sublist search_pattern (transform (content l))
               then Ok \<lparr>line = l, groups = Map.empty\<rparr>
               else no_match l))"

definition create_matcher :: "re_compile \<Rightarrow> MatchConfig \<Rightarrow> (Line \<Rightarrow> MatchResult) outcome" where
  "create_matcher compile config =
     (if is_regex_pattern (pattern config) then create_regex_matcher compile config
      else if pattern config \<noteq> [] then Returns (create_literal_matcher config)
      else Returns (\<lambda>l. Err (''Invalid pattern: '' @ [squote, squote])))"

section \<open>The pipeline (domain/pipeline.py)\<close>

text \<open>
  The generator over the input iterator is a function on the list of items read; its
  result is the list of outcomes it yields, in the order it yields them.
\<close>

fun pipeline :: "(Line \<Rightarrow> MatchResult) \<Rightarrow> (MatchContext \<Rightarrow> FilterResult) \<Rightarrow> LineResult list
    \<Rightarrow> MatchResult list" where
  "pipeline matcher filter_fn [] = []"
| "pipeline matcher filter_fn (line_result # lines) =
     (case line_result of
        Err error \<Rightarrow> Err error # pipeline matcher filter_fn lines
      | Ok l \<Rightarrow>
          (case matcher l of
             Err e \<Rightarrow> pipeline matcher filter_fn lines
           | Ok context \<Rightarrow>
               (case filter_fn context of
                  Err error \<Rightarrow> Err error # pipeline matcher filter_fn lines
                | Ok passes \<Rightarrow>
                    if passes then Ok context # pipeline matcher filter_fn lines
                    else pipeline matcher filter_fn lines)))"

definition build_pipeline :: "(Line \<Rightarrow> MatchResult) \<Rightarrow> (MatchContext \<Rightarrow> FilterResult)
    \<Rightarrow> LineResult list \<Rightarrow> MatchResult list" where
  "build_pipeline matcher filter_fn = pipeline matcher filter_fn"

section \<open>The runner (cli/runner.py)\<close>

record CLIArgs =
  source :: "string option"
  match_pattern :: string
  case_flag :: bool
  where_clauses :: "string list"

text \<open>
  \<open>run\<close>: the reader chosen by \<open>_select_reader\<close> and the items its \<open>read_lines()\<close> yields are
  the parameter \<open>reader_result\<close>; the result is what \<open>run\<close> returns together with the
  outcomes handed to the emitter. The fields \<open>pattern\<close> and \<open>case_sensitive\<close> of \<open>CLIArgs\<close>
  are called \<open>match_pattern\<close> and \<open>case_flag\<close> here, since \<open>MatchConfig\<close> has fields of
  the same names. The exceptions of the input and output (a broken pipe, an interrupt)
  belong to the reader and the emitter and are left out. An exception of
  \<open>create_matcher\<close> is raised before the \<open>try\<close> of \<open>run\<close>, so \<open>run\<close> raises it too, before any
  line is read.
\<close>

definition run :: "re_compile \<Rightarrow> (LineResult list, string) Result \<Rightarrow> CLIArgs
    \<Rightarrow> ((unit, string) Result \<times> MatchResult list) outcome" where
  "run compile reader_result args =
     (case reader_result of
        Err error \<Rightarrow> Returns (Err error, [])
      | Ok lines \<Rightarrow>
          (case create_matcher compile
                  \<lparr>pattern = match_pattern args, case_sensitive = case_flag args\<rparr> of
             Raises e \<Rightarrow> Raises e
           | Returns matcher \<Rightarrow>
               (let filter_fn = create_filter (where_clauses args);
                    contexts = build_pipeline matcher filter_fn lines
                in Returns (Ok (), contexts))))"

section \<open>Definitions used to state the properties\<close>

text \<open>
  What the specification says one input item contributes to the outcome stream: a read
  error is passed on as a failed outcome; a line the matcher does not match contributes
  nothing; a matched line contributes a successful outcome when the filter answers true,
  nothing when it answers false, and a failed outcome when it answers with an error.
\<close>

definition outcomes_of_item :: "(Line \<Rightarrow> MatchResult) \<Rightarrow> (MatchContext \<Rightarrow> FilterResult) \<Rightarrow> LineResult
    \<Rightarrow> MatchResult list" where
  "outcomes_of_item matcher filter_fn item =
     (case item of
        Err error \<Rightarrow> [Err error]
      | Ok l \<Rightarrow>
          (case matcher l of
             Err e \<Rightarrow> []
           | Ok context \<Rightarrow>
               (case filter_fn context of
                  Ok True \<Rightarrow> [Ok context]
                | Ok False \<Rightarrow> []
                | Err error \<Rightarrow> [Err error])))"

text \<open>The three types of the specification's RuntimeValue; \<open>None\<close> is not one of them.\<close>

datatype value_type = IntegerT | TextT | BooleanT

fun runtime_type :: "pyval \<Rightarrow> value_type option" where
  "runtime_type (PyInt i) = Some IntegerT"
| "runtime_type (PyStr s) = Some TextT"
| "runtime_type (PyBool b) = Some BooleanT"
| "runtime_type PyNone = None"

text \<open>A context for the examples: line 1 with content \<open>status=500\<close> and no groups.\<close>

definition example_context :: MatchContext where
  "example_context = \<lparr>line = \<lparr>number = 1, content = ''status=500''\<rparr>, groups = map_of []\<rparr>"



text \<open>The tokens of the clause \<open>line.length > 1 > 2\<close>.\<close>

definition chained_tokens :: "Token list" where
  "chained_tokens =
     [Token IDENT ''line'' 0, Token DOT ''.'' 4, Token IDENT ''length'' 5, Token GT ''>'' 12,
      Token NUMBER ''1'' 14, Token GT ''>'' 16, Token NUMBER ''2'' 18]"

text \<open>
  The calls of the parser. A \<open>parser_call\<close> is a call of one of the parsing functions, or
  the state of one of the two \<open>while\<close> loops, on the tokens that are left; \<open>calls x y\<close>
  holds when the call \<open>x\<close> makes the call \<open>y\<close> in the course of its own work. There is
  one rule for every call in the body of a parsing function, under the condition on
  which the body reaches it.
\<close>

datatype parser_call =
    Call_or_expr "Token list"
  | Call_or_loop ASTNode "Token list"
  | Call_and_expr "Token list"
  | Call_and_loop ASTNode "Token list"
  | Call_cmp_expr "Token list"
  | Call_term "Token list"
  | Call_atom "Token list"

fun result_of :: "parser_call \<Rightarrow> parse_result" where
  "result_of (Call_or_expr ts) = parse_or_expr ts"
| "result_of (Call_or_loop left ts) = or_loop left ts"
| "result_of (Call_and_expr ts) = parse_and_expr ts"
| "result_of (Call_and_loop left ts) = and_loop left ts"
| "result_of (Call_cmp_expr ts) = parse_cmp_expr ts"
| "result_of (Call_term ts) = parse_term ts"
| "result_of (Call_atom ts) = parse_atom ts"

inductive calls :: "parser_call \<Rightarrow> parser_call \<Rightarrow> bool" where
  or_first: "calls (Call_or_expr ts) (Call_and_expr ts)"
| or_enter_loop: "parse_and_expr ts = Ok (left, rest) \<Longrightarrow> calls (Call_or_expr ts) (Call_or_loop left rest)"
| or_next: "tok_type t = OR \<Longrightarrow> calls (Call_or_loop left (t # rest)) (Call_and_expr rest)"
| or_again: "tok_type t = OR \<Longrightarrow> parse_and_expr rest = Ok (right, rest') \<Longrightarrow>
     calls (Call_or_loop left (t # rest)) (Call_or_loop (BinaryOp left ''or'' right) rest')"
| and_first: "calls (Call_and_expr ts) (Call_cmp_expr ts)"
| and_enter_loop: "parse_cmp_expr ts = Ok (left, rest) \<Longrightarrow> calls (Call_and_expr ts) (Call_and_loop left rest)"
| and_next: "tok_type t = AND \<Longrightarrow> calls (Call_and_loop left (t # rest)) (Call_cmp_expr rest)"
| and_again: "tok_type t = AND \<Longrightarrow> parse_cmp_expr rest = Ok (right, rest') \<Longrightarrow>
     calls (Call_and_loop left (t # rest)) (Call_and_loop (BinaryOp left ''and'' right) rest')"
| cmp_left: "calls (Call_cmp_expr ts) (Call_term ts)"
| cmp_right: "parse_term ts = Ok (left, op_token # rest) \<Longrightarrow> op_map (tok_type op_token) = Some op \<Longrightarrow>
     calls (Call_cmp_expr ts) (Call_term rest)"
| term_not: "tok_type token = NOT \<Longrightarrow> calls (Call_term (token # rest)) (Call_term rest)"
| term_atom: "tok_type token \<noteq> NOT \<Longrightarrow> calls (Call_term (token # rest)) (Call_atom (token # rest))"
| term_end: "calls (Call_term []) (Call_atom [])"
| atom_paren: "tok_type token = LPAREN \<Longrightarrow> calls (Call_atom (token # rest)) (Call_or_expr rest)"


text \<open>
  What remains of a parse once a comparator \<open>c\<close> is left over behind a completed
  comparison: the calls for expressions return with \<open>c\<close> as the next token, and a call
  that needs a closing parenthesis there fails.
\<close>

fun is_expr_call :: "parser_call \<Rightarrow> bool" where
  "is_expr_call (Call_term ts) = False"
| "is_expr_call (Call_atom ts) = False"
| "is_expr_call c = True"

definition expected_rparen :: "Token \<Rightarrow> string" where
  "expected_rparen t =
     ''Expected RPAREN, got '' @ type_str (tok_type t) @ '' at position '' @ str_of_nat (tok_position t)"

definition stuck_at :: "Token \<Rightarrow> Token list \<Rightarrow> parser_call \<Rightarrow> bool" where
  "stuck_at c rest call =
     (result_of call = Err (expected_rparen c)
      \<or> (is_expr_call call \<and> (\<exists>ast. result_of call = Ok (ast, c # rest))))"

text \<open>
  The tokens of \<open>line.number > 0 and line.length > 1 > 2\<close>, with the tokens after its
  \<open>and\<close>, and of \<open>not (1 > 2 > 3)\<close>, with the tokens inside its parentheses.
\<close>

definition after_and_tokens :: "Token list" where
  "after_and_tokens =
     [Token IDENT ''line'' 20, Token DOT ''.'' 24, Token IDENT ''length'' 25, Token GT ''>'' 32,
      Token NUMBER ''1'' 34, Token GT ''>'' 36, Token NUMBER ''2'' 38]"

definition and_chain_tokens :: "Token list" where
  "and_chain_tokens =
     [Token IDENT ''line'' 0, Token DOT ''.'' 4, Token IDENT ''number'' 5, Token GT ''>'' 12,
      Token NUMBER ''0'' 14, Token AND ''and'' 16] @ after_and_tokens"

definition inner_chain_tokens :: "Token list" where
  "inner_chain_tokens =
     [Token NUMBER ''1'' 5, Token GT ''>'' 7, Token NUMBER ''2'' 9, Token GT ''>'' 11,
      Token NUMBER ''3'' 13, Token RPAREN '')'' 14]"

definition nested_chain_tokens :: "Token list" where
  "nested_chain_tokens = [Token NOT ''not'' 0, Token LPAREN ''('' 4] @ inner_chain_tokens"

text \<open>
  A regex engine for the examples. It stands for \<open>re.compile\<close> on three patterns:
  \<open>a(?P<x>b)?\<close>, which compiles, and whose search stops at the first \<open>a\<close> and reports
  the optional group \<open>x\<close> as \<open>b\<close> when a \<open>b\<close> follows and as \<open>None\<close> when it took no part
  in the match; \<open>(\<close>, for which \<open>re.compile\<close> raises \<open>re.error\<close>; and \<open>a{99999999999}\<close>,
  for which it raises \<open>OverflowError\<close>.
\<close>

fun search_a_optional_b :: compiled_regex where
  "search_a_optional_b [] = None"
| "search_a_optional_b (c # cs) =
     (if c = CHR ''a'' then Some (map_of [(''x'', if prefix ''b'' cs then Some ''b'' else None)])
      else search_a_optional_b cs)"

definition example_re_compile :: re_compile where
  "example_re_compile p ignorecase =
     (if p = ''a(?P<x>b)?'' \<and> \<not> ignorecase then Compiled search_a_optional_b
      else if p = ''a{99999999999}'' then Other_exception ''the repetition number is too large''
      else if p = ''('' then Re_error ''missing ), unterminated subpattern at position 0''
      else Re_error ''pattern outside the examples'')"

definition error_line :: Line where
  "error_line = \<lparr>number = 1, content = ''ERROR: timeout''\<rparr>"

definition info_line :: Line where
  "info_line = \<lparr>number = 2, content = ''INFO: ok''\<rparr>"

section \<open>Properties\<close>

subsection \<open>Tokenizer\<close>

text \<open>
  C3. The tokenizer does not do what the claim says. An invalid byte in the middle of a clause
  is skipped without an error (\<open>finditer\<close> moves on to the next offset where a pattern
  matches), so \<open>line.length > @5\<close> gives the tokens of \<open>line.length > 5\<close>; and a blank
  at the end of a clause is an error, because \<open>position\<close> is not advanced over
  whitespace: \<open>line.length > 5\<close> followed by one blank fails at offset 15.
\<close>

theorem tokenize_invalid_byte_and_trailing_blank:
  "tokenize ''line.length > @5''
     = Ok [Token IDENT ''line'' 0, Token DOT ''.'' 4, Token IDENT ''length'' 5, Token GT ''>'' 12,
           Token NUMBER ''5'' 15]
   \<and> tokenize ''line.length > 5 '' = Err ''Unexpected character at position 15:  ''
   \<and> tokenize ''line.length > 5''
     = Ok [Token IDENT ''line'' 0, Token DOT ''.'' 4, Token IDENT ''length'' 5, Token GT ''>'' 12,
           Token NUMBER ''5'' 14]"
  by code_simp

subsection \<open>Parser\<close>








lemma op_map_not_keyword:
  "op_map ty = Some op \<Longrightarrow> ty \<noteq> AND \<and> ty \<noteq> OR \<and> ty \<noteq> RPAREN"
  by (cases ty) auto

lemma leftover_comparator:
  assumes "parse_cmp_expr ts = Ok (ast, c # rest)" and "op_map (tok_type c) = Some op"
  shows "parse_or_expr ts = Ok (ast, c # rest)"
  using assms op_map_not_keyword [OF assms(2)]
  by (simp add: parse_or_expr.simps parse_and_expr.simps)

lemma second_comparator:
  assumes "parse_term ts = Ok (l, c1 # ts1)" and "op_map (tok_type c1) = Some o1"
    and "parse_term ts1 = Ok (r, rest)"
  shows "parse_cmp_expr ts = Ok (BinaryOp l o1 r, rest)"
  using assms by (simp add: parse_cmp_expr.simps)

lemma stuck_step:
  assumes "calls x y" and "stuck_at c rest y" and "op_map (tok_type c) = Some op"
  shows "stuck_at c rest x"
  using assms(1,2) op_map_not_keyword [OF assms(3)]
  by (induction rule: calls.induct)
     (auto simp: stuck_at_def parse_or_expr.simps parse_and_expr.simps parse_cmp_expr.simps
        consume_def expected_rparen_def)

lemma stuck_reaches:
  assumes "calls\<^sup>*\<^sup>* x y" and "stuck_at c rest y" and "op_map (tok_type c) = Some op"
  shows "stuck_at c rest x"
  using assms by (induction rule: rtranclp_induct) (auto intro: stuck_step)

lemma chain_anywhere:
  assumes "calls\<^sup>*\<^sup>* (Call_or_expr ts) (Call_cmp_expr ts')"
    and "parse_term ts' = Ok (l, c1 # ts1)" and "op_map (tok_type c1) = Some o1"
    and "parse_term ts1 = Ok (r, c2 # ts2)" and "op_map (tok_type c2) = Some o2"
  shows "Parser_parse ts = Err (''Unexpected token after expression: '' @ tok_value c2)
       \<or> Parser_parse ts = Err (expected_rparen c2)"
proof -
  have "parse_cmp_expr ts' = Ok (BinaryOp l o1 r, c2 # ts2)"
    using second_comparator assms(2,3,4) by blast
  then have "stuck_at c2 ts2 (Call_cmp_expr ts')"
    by (simp add: stuck_at_def)
  then have "stuck_at c2 ts2 (Call_or_expr ts)"
    using stuck_reaches assms(1,5) by blast
  then show ?thesis
    by (auto simp: stuck_at_def Parser_parse_def)
qed


text \<open>
  C8. Comparison does not chain. The clause \<open>line.length > 1 > 2\<close> is a ParseError.
  In general, let \<open>parse_cmp_expr\<close> be called on tokens that begin with a term, a
  comparator, a term and a second comparator. It completes the first comparison and
  stops before the second comparator. If these tokens are the whole clause, the parse
  fails with "Unexpected token after expression"; directly inside parentheses it fails
  with "Expected RPAREN"; and wherever else in a clause the parser comes to call
  \<open>parse_cmp_expr\<close> on them (after \<open>and\<close> or \<open>or\<close>, under \<open>not\<close>, at any depth of
  parentheses), the parse of the clause fails with one of these two errors.
\<close>

theorem comparison_is_not_chainable:
  "parse_where_expression ''line.length > 1 > 2'' = Err ''Unexpected token after expression: >''
   \<and> (parse_term ts = Ok (l, c1 # ts1) \<and> op_map (tok_type c1) = Some o1
        \<and> parse_term ts1 = Ok (r, c2 # ts2) \<and> op_map (tok_type c2) = Some o2
      \<longrightarrow> parse_cmp_expr ts = Ok (BinaryOp l o1 r, c2 # ts2)
          \<and> Parser_parse ts = Err (''Unexpected token after expression: '' @ tok_value c2)
          \<and> parse_atom (Token LPAREN lp p # ts) = Err (expected_rparen c2)
          \<and> (calls\<^sup>*\<^sup>* (Call_or_expr clause) (Call_cmp_expr ts)
              \<longrightarrow> Parser_parse clause = Err (''Unexpected token after expression: '' @ tok_value c2)
                  \<or> Parser_parse clause = Err (expected_rparen c2)))"
proof (intro conjI impI)
  show "parse_where_expression ''line.length > 1 > 2'' = Err ''Unexpected token after expression: >''"
    by code_simp
next
  assume h: "parse_term ts = Ok (l, c1 # ts1) \<and> op_map (tok_type c1) = Some o1
        \<and> parse_term ts1 = Ok (r, c2 # ts2) \<and> op_map (tok_type c2) = Some o2"
  then have cmp: "parse_cmp_expr ts = Ok (BinaryOp l o1 r, c2 # ts2)"
    using second_comparator by blast
  then have or: "parse_or_expr ts = Ok (BinaryOp l o1 r, c2 # ts2)"
    using leftover_comparator h by blast
  show "parse_cmp_expr ts = Ok (BinaryOp l o1 r, c2 # ts2)"
    by (rule cmp)
  show "Parser_parse ts = Err (''Unexpected token after expression: '' @ tok_value c2)"
    by (simp add: Parser_parse_def or)
  have "tok_type c2 \<noteq> RPAREN"
    using h op_map_not_keyword by blast
  then show "parse_atom (Token LPAREN lp p # ts) = Err (expected_rparen c2)"
    by (simp add: or consume_def expected_rparen_def)
  assume "calls\<^sup>*\<^sup>* (Call_or_expr clause) (Call_cmp_expr ts)"
  then show "Parser_parse clause = Err (''Unexpected token after expression: '' @ tok_value c2)
      \<or> Parser_parse clause = Err (expected_rparen c2)"
    using chain_anywhere h by blast
qed

text \<open>
  C8 at the clauses \<open>line.length > 1 > 2\<close>, \<open>line.number > 0 and line.length > 1 > 2\<close>
  and \<open>not (1 > 2 > 3)\<close>.
\<close>

theorem comparison_is_not_chainable_witness:
  "tokenize ''line.length > 1 > 2'' = Ok chained_tokens
   \<and> parse_cmp_expr chained_tokens
       = Ok (BinaryOp (Attribute ''line'' ''length'') ''>'' (Literal (PyInt 1)),
             [Token GT ''>'' 16, Token NUMBER ''2'' 18])
   \<and> Parser_parse chained_tokens = Err ''Unexpected token after expression: >''
   \<and> parse_atom (Token LPAREN ''('' 0 # chained_tokens) = Err ''Expected RPAREN, got GT at position 16''
   \<and> tokenize ''line.number > 0 and line.length > 1 > 2'' = Ok and_chain_tokens
   \<and> calls\<^sup>*\<^sup>* (Call_or_expr and_chain_tokens) (Call_cmp_expr after_and_tokens)
   \<and> Parser_parse and_chain_tokens = Err ''Unexpected token after expression: >''
   \<and> tokenize ''not (1 > 2 > 3)'' = Ok nested_chain_tokens
   \<and> calls\<^sup>*\<^sup>* (Call_or_expr nested_chain_tokens) (Call_cmp_expr inner_chain_tokens)
   \<and> Parser_parse nested_chain_tokens = Err ''Expected RPAREN, got GT at position 11''"
proof -
  have tok: "tokenize ''line.length > 1 > 2'' = Ok chained_tokens"
    "tokenize ''line.number > 0 and line.length > 1 > 2'' = Ok and_chain_tokens"
    "tokenize ''not (1 > 2 > 3)'' = Ok nested_chain_tokens"
    by code_simp+
  have l: "parse_term chained_tokens
      = Ok (Attribute ''line'' ''length'', Token GT ''>'' 12 # [Token NUMBER ''1'' 14, Token GT ''>'' 16, Token NUMBER ''2'' 18])"
    by code_simp
  have r: "parse_term [Token NUMBER ''1'' 14, Token GT ''>'' 16, Token NUMBER ''2'' 18]
      = Ok (Literal (PyInt 1), Token GT ''>'' 16 # [Token NUMBER ''2'' 18])"
    by code_simp
  have pos: "str_of_nat 16 = ''16''" "str_of_nat 36 = ''36''" "str_of_nat 11 = ''11''"
    by code_simp+
  have t1: "calls (Call_or_expr chained_tokens) (Call_and_expr chained_tokens)"
    by (rule calls.or_first)
  have t2: "calls (Call_and_expr chained_tokens) (Call_cmp_expr chained_tokens)"
    by (rule calls.and_first)
  have top: "calls\<^sup>*\<^sup>* (Call_or_expr chained_tokens) (Call_cmp_expr chained_tokens)"
    by (rule converse_rtranclp_into_rtranclp [where r = calls, OF t1], rule r_into_rtranclp [where r = calls, OF t2])
  have first: "parse_cmp_expr and_chain_tokens
      = Ok (BinaryOp (Attribute ''line'' ''number'') ''>'' (Literal (PyInt 0)),
            Token AND ''and'' 16 # after_and_tokens)"
    by code_simp
  have a1: "calls (Call_or_expr and_chain_tokens) (Call_and_expr and_chain_tokens)"
    by (rule calls.or_first)
  have a2: "calls (Call_and_expr and_chain_tokens)
      (Call_and_loop (BinaryOp (Attribute ''line'' ''number'') ''>'' (Literal (PyInt 0)))
         (Token AND ''and'' 16 # after_and_tokens))"
    by (rule calls.and_enter_loop [OF first])
  have a3: "calls
      (Call_and_loop (BinaryOp (Attribute ''line'' ''number'') ''>'' (Literal (PyInt 0)))
         (Token AND ''and'' 16 # after_and_tokens))
      (Call_cmp_expr after_and_tokens)"
    by (rule calls.and_next) simp
  have reach_and: "calls\<^sup>*\<^sup>* (Call_or_expr and_chain_tokens) (Call_cmp_expr after_and_tokens)"
    by (rule converse_rtranclp_into_rtranclp [where r = calls, OF a1], rule converse_rtranclp_into_rtranclp [where r = calls, OF a2],
        rule r_into_rtranclp [where r = calls, OF a3])
  have al: "parse_term after_and_tokens
      = Ok (Attribute ''line'' ''length'', Token GT ''>'' 32 # [Token NUMBER ''1'' 34, Token GT ''>'' 36, Token NUMBER ''2'' 38])"
    by code_simp
  have ar: "parse_term [Token NUMBER ''1'' 34, Token GT ''>'' 36, Token NUMBER ''2'' 38]
      = Ok (Literal (PyInt 1), Token GT ''>'' 36 # [Token NUMBER ''2'' 38])"
    by code_simp
  have and_result: "Parser_parse and_chain_tokens = Err ''Unexpected token after expression: >''"
    by code_simp
  have n1: "calls (Call_or_expr nested_chain_tokens) (Call_and_expr nested_chain_tokens)"
    by (rule calls.or_first)
  have n2: "calls (Call_and_expr nested_chain_tokens) (Call_cmp_expr nested_chain_tokens)"
    by (rule calls.and_first)
  have n3: "calls (Call_cmp_expr nested_chain_tokens) (Call_term nested_chain_tokens)"
    by (rule calls.cmp_left)
  have n4: "calls (Call_term nested_chain_tokens) (Call_term (Token LPAREN ''('' 4 # inner_chain_tokens))"
    unfolding nested_chain_tokens_def by (simp add: calls.term_not)
  have n5: "calls (Call_term (Token LPAREN ''('' 4 # inner_chain_tokens))
      (Call_atom (Token LPAREN ''('' 4 # inner_chain_tokens))"
    by (rule calls.term_atom) simp
  have n6: "calls (Call_atom (Token LPAREN ''('' 4 # inner_chain_tokens)) (Call_or_expr inner_chain_tokens)"
    by (rule calls.atom_paren) simp
  have n7: "calls (Call_or_expr inner_chain_tokens) (Call_and_expr inner_chain_tokens)"
    by (rule calls.or_first)
  have n8: "calls (Call_and_expr inner_chain_tokens) (Call_cmp_expr inner_chain_tokens)"
    by (rule calls.and_first)
  have reach_nested: "calls\<^sup>*\<^sup>* (Call_or_expr nested_chain_tokens) (Call_cmp_expr inner_chain_tokens)"
    by (rule converse_rtranclp_into_rtranclp [where r = calls, OF n1], rule converse_rtranclp_into_rtranclp [where r = calls, OF n2],
        rule converse_rtranclp_into_rtranclp [where r = calls, OF n3], rule converse_rtranclp_into_rtranclp [where r = calls, OF n4],
        rule converse_rtranclp_into_rtranclp [where r = calls, OF n5], rule converse_rtranclp_into_rtranclp [where r = calls, OF n6],
        rule converse_rtranclp_into_rtranclp [where r = calls, OF n7], rule r_into_rtranclp [where r = calls, OF n8])
  have nl: "parse_term inner_chain_tokens
      = Ok (Literal (PyInt 1), Token GT ''>'' 7 # [Token NUMBER ''2'' 9, Token GT ''>'' 11,
            Token NUMBER ''3'' 13, Token RPAREN '')'' 14])"
    by code_simp
  have nr: "parse_term [Token NUMBER ''2'' 9, Token GT ''>'' 11, Token NUMBER ''3'' 13, Token RPAREN '')'' 14]
      = Ok (Literal (PyInt 2), Token GT ''>'' 11 # [Token NUMBER ''3'' 13, Token RPAREN '')'' 14])"
    by code_simp
  have nested_result: "Parser_parse nested_chain_tokens = Err ''Expected RPAREN, got GT at position 11''"
    by code_simp
  have g1: "parse_cmp_expr chained_tokens
        = Ok (BinaryOp (Attribute ''line'' ''length'') ''>'' (Literal (PyInt 1)),
              [Token GT ''>'' 16, Token NUMBER ''2'' 18])
      \<and> Parser_parse chained_tokens = Err ''Unexpected token after expression: >''
      \<and> parse_atom (Token LPAREN ''('' 0 # chained_tokens) = Err (expected_rparen (Token GT ''>'' 16))"
    using comparison_is_not_chainable [of chained_tokens "Attribute ''line'' ''length''"
        "Token GT ''>'' 12" "[Token NUMBER ''1'' 14, Token GT ''>'' 16, Token NUMBER ''2'' 18]"
        "''>''" "Literal (PyInt 1)" "Token GT ''>'' 16" "[Token NUMBER ''2'' 18]" "''>''" "''(''" 0
        chained_tokens] l r
    by simp
  have g2: "Parser_parse and_chain_tokens = Err ''Unexpected token after expression: >''
      \<or> Parser_parse and_chain_tokens = Err (expected_rparen (Token GT ''>'' 36))"
    using comparison_is_not_chainable [of after_and_tokens "Attribute ''line'' ''length''"
        "Token GT ''>'' 32" "[Token NUMBER ''1'' 34, Token GT ''>'' 36, Token NUMBER ''2'' 38]"
        "''>''" "Literal (PyInt 1)" "Token GT ''>'' 36" "[Token NUMBER ''2'' 38]" "''>''" "''(''" 0
        and_chain_tokens] al ar reach_and
    by simp
  have g3: "Parser_parse nested_chain_tokens = Err ''Unexpected token after expression: >''
      \<or> Parser_parse nested_chain_tokens = Err (expected_rparen (Token GT ''>'' 11))"
    using comparison_is_not_chainable [of inner_chain_tokens "Literal (PyInt 1)"
        "Token GT ''>'' 7" "[Token NUMBER ''2'' 9, Token GT ''>'' 11, Token NUMBER ''3'' 13, Token RPAREN '')'' 14]"
        "''>''" "Literal (PyInt 2)" "Token GT ''>'' 11" "[Token NUMBER ''3'' 13, Token RPAREN '')'' 14]" "''>''"
        "''(''" 0 nested_chain_tokens] nl nr reach_nested
    by simp
  have e: "expected_rparen (Token GT ''>'' 16) = ''Expected RPAREN, got GT at position 16''"
    by (simp add: expected_rparen_def pos)
  show ?thesis
    using tok g1 g2 g3 e reach_and and_result reach_nested nested_result
    by simp
qed


text \<open>
  C6, as stated, fails: the clause \<open>not line.contains("x") == true\<close> does not parse. The
  grammar has no boolean literal; \<open>true\<close> is an IDENT token, and an identifier that is
  followed by neither a dot nor a parenthesis is a ParseError.
\<close>

theorem boolean_literal_does_not_parse:
  "parse_where_expression (''not line.contains('' @ [dquote] @ ''x'' @ [dquote] @ '') == true'')
     = Err ''Unexpected identifier: true''"
  by code_simp

text \<open>
  C6, amended. The clause \<open>not line.contains("x") == true\<close> is a ParseError
  ("Unexpected identifier: true"). With the integer literal 1 in the place of \<open>true\<close> the
  clause parses, and
  \<open>not\<close> applies to the method call only. This tree, and the tree with the boolean
  literal true in the place of 1, evaluate to the boolean true in every context whose
  line does not contain \<open>x\<close>.
\<close>

theorem not_binds_tighter_than_comparison:
  "parse_where_expression (''not line.contains('' @ [dquote] @ ''x'' @ [dquote] @ '') == true'')
     = Err ''Unexpected identifier: true''
   \<and> parse_where_expression (''not line.contains('' @ [dquote] @ ''x'' @ [dquote] @ '') == 1'')
     = Ok (BinaryOp (UnaryOp ''not'' (MethodCall ''line'' ''contains'' [''x''])) ''=='' (Literal (PyInt 1)))
   \<and> (\<not> sublist ''x'' (content (line ctx)) \<longrightarrow>
        evaluate_where
          (BinaryOp (UnaryOp ''not'' (MethodCall ''line'' ''contains'' [''x''])) ''=='' (Literal (PyInt 1)))
          ctx = Ok (PyBool True)
      \<and> evaluate_where
          (BinaryOp (UnaryOp ''not'' (MethodCall ''line'' ''contains'' [''x''])) ''==''
             (Literal (PyBool True)))
          ctx = Ok (PyBool True))"
proof (intro conjI impI)
  show "parse_where_expression (''not line.contains('' @ [dquote] @ ''x'' @ [dquote] @ '') == true'')
     = Err ''Unexpected identifier: true''"
    by code_simp
  show "parse_where_expression (''not line.contains('' @ [dquote] @ ''x'' @ [dquote] @ '') == 1'')
     = Ok (BinaryOp (UnaryOp ''not'' (MethodCall ''line'' ''contains'' [''x''])) ''=='' (Literal (PyInt 1)))"
    by code_simp
qed (simp_all add: evaluate_where_def binary_op_def line_method_def Line_contains_def py_eq_def)

text \<open>The amended C6 in a context whose line is \<open>status=500\<close>.\<close>

theorem not_binds_tighter_than_comparison_witness:
  "\<not> sublist ''x'' (content (line example_context))
   \<and> evaluate_where
        (BinaryOp (UnaryOp ''not'' (MethodCall ''line'' ''contains'' [''x''])) ''=='' (Literal (PyInt 1)))
        example_context = Ok (PyBool True)
   \<and> evaluate_where
        (BinaryOp (UnaryOp ''not'' (MethodCall ''line'' ''contains'' [''x''])) ''==''
           (Literal (PyBool True)))
        example_context = Ok (PyBool True)"
proof -
  have h: "\<not> sublist ''x'' (content (line example_context))"
    unfolding example_context_def by code_simp
  show ?thesis
    using not_binds_tighter_than_comparison [of example_context] h by simp
qed

subsection \<open>Evaluator\<close>

text \<open>
  C2, as stated, fails: comparing an integer with a text by \<open>==\<close> is not an
  EvaluationError. The clause \<open>1 == "a"\<close> evaluates to the boolean false.
\<close>

theorem equality_of_int_and_text_is_false:
  "evaluate_where (BinaryOp (Literal (PyInt 1)) ''=='' (Literal (PyStr ''a''))) example_context
     = Ok (PyBool False)"
  by (simp add: evaluate_where_def binary_op_def py_eq_def)

text \<open>
  C2, amended. Let the two operands evaluate to values of different types among integer,
  text and boolean. If one of them is text, the ordering operators \<open>>\<close>, \<open><\<close>, \<open>>=\<close>,
  \<open><=\<close> return an EvaluationError (the \<open>TypeError\<close> of Python), while \<open>==\<close> returns false
  and \<open>!=\<close> returns true. If one is an integer and the other a boolean, no operator
  fails: each returns the comparison of the two as integers, true counting as 1 and
  false as 0.
\<close>

theorem comparison_of_different_types:
  assumes "evaluate_node l ctx = Ok a" and "evaluate_node r ctx = Ok b"
    and "runtime_type a = Some ta" and "runtime_type b = Some tb" and "ta \<noteq> tb"
  shows "if ta = TextT \<or> tb = TextT then
           (op \<in> {''>'', ''<'', ''>='', ''<=''} \<longrightarrow>
              evaluate_where (BinaryOp l op r) ctx = Err (''Evaluation error: '' @ type_error op a b))
           \<and> evaluate_where (BinaryOp l ''=='' r) ctx = Ok (PyBool False)
           \<and> evaluate_where (BinaryOp l ''!='' r) ctx = Ok (PyBool True)
         else
           (\<exists>x y. py_num a = Some x \<and> py_num b = Some y
              \<and> evaluate_where (BinaryOp l ''>'' r) ctx = Ok (PyBool (x > y))
              \<and> evaluate_where (BinaryOp l ''<'' r) ctx = Ok (PyBool (x < y))
              \<and> evaluate_where (BinaryOp l ''>='' r) ctx = Ok (PyBool (x \<ge> y))
              \<and> evaluate_where (BinaryOp l ''<='' r) ctx = Ok (PyBool (x \<le> y))
              \<and> evaluate_where (BinaryOp l ''=='' r) ctx = Ok (PyBool (x = y))
              \<and> evaluate_where (BinaryOp l ''!='' r) ctx = Ok (PyBool (x \<noteq> y)))"
  using assms
  by (cases a; cases b)
     (auto simp: evaluate_where_def binary_op_def ordered_def py_gt_def py_lt_def py_ge_def
        py_le_def py_eq_def)

text \<open>
  The amended C2 at \<open>1 > "a"\<close>, \<open>1 != "a"\<close>, \<open>True > 0\<close> and \<open>True == 1\<close>.
\<close>

theorem comparison_of_different_types_witness:
  "evaluate_where (BinaryOp (Literal (PyInt 1)) ''>'' (Literal (PyStr ''a''))) example_context
     = Err (''Evaluation error: '' @ [squote] @ ''>'' @ [squote]
            @ '' not supported between instances of '' @ [squote] @ ''int'' @ [squote]
            @ '' and '' @ [squote] @ ''str'' @ [squote])
   \<and> evaluate_where (BinaryOp (Literal (PyInt 1)) ''!='' (Literal (PyStr ''a''))) example_context
     = Ok (PyBool True)
   \<and> evaluate_where (BinaryOp (Literal (PyBool True)) ''>'' (Literal (PyInt 0))) example_context
     = Ok (PyBool True)
   \<and> evaluate_where (BinaryOp (Literal (PyBool True)) ''=='' (Literal (PyInt 1))) example_context
     = Ok (PyBool True)"
proof -
  have text_int: "runtime_type (PyInt 1) = Some IntegerT" "runtime_type (PyStr ''a'') = Some TextT"
    "IntegerT \<noteq> TextT"
    by simp_all
  have bool_int: "runtime_type (PyBool True) = Some BooleanT" "runtime_type (PyInt 0) = Some IntegerT"
    "BooleanT \<noteq> IntegerT"
    by simp_all
  have lit: "\<And>v. evaluate_node (Literal v) example_context = Ok v"
    by simp
  show ?thesis
    using comparison_of_different_types [OF lit lit text_int, of "''>''"]
      comparison_of_different_types [OF lit lit bool_int]
      comparison_of_different_types [OF lit lit bool_int(1) text_int(1)]
    by (simp add: type_error_def)
qed

text \<open>
  C9. \<open>and\<close> and \<open>or\<close> evaluate both operands: the result is the error of the left
  operand when it fails, otherwise the error of the right operand when that fails (even
  if the left value alone decides the answer), otherwise the conjunction (disjunction)
  of the truthiness of the two values. Truthiness is the boolean itself, nonzero for an
  integer and non-empty for a text. A literal evaluates to its value and a missing
  group is an error, so that an operand that fails makes \<open>False and ...\<close> and
  \<open>True or ...\<close> fail, on either side.
\<close>

theorem logical_operators_are_eager:
  "evaluate_where (BinaryOp l ''and'' r) ctx =
     (case evaluate_where l ctx of
        Err e \<Rightarrow> Err e
      | Ok a \<Rightarrow>
          (case evaluate_where r ctx of
             Err e \<Rightarrow> Err e
           | Ok b \<Rightarrow> Ok (PyBool (py_bool a \<and> py_bool b))))
   \<and> evaluate_where (BinaryOp l ''or'' r) ctx =
     (case evaluate_where l ctx of
        Err e \<Rightarrow> Err e
      | Ok a \<Rightarrow>
          (case evaluate_where r ctx of
             Err e \<Rightarrow> Err e
           | Ok b \<Rightarrow> Ok (PyBool (py_bool a \<or> py_bool b))))
   \<and> py_bool (PyBool t) = t \<and> py_bool (PyInt i) = (i \<noteq> 0) \<and> py_bool (PyStr s) = (s \<noteq> [])
   \<and> evaluate_where (Literal v) ctx = Ok v
   \<and> (groups ctx name = None \<longrightarrow>
        evaluate_where (GroupAccess name) ctx = Err (''Evaluation error: Regex group not found: '' @ name))
   \<and> (evaluate_where r ctx = Err e \<longrightarrow>
        evaluate_where (BinaryOp (Literal (PyBool False)) ''and'' r) ctx = Err e
      \<and> evaluate_where (BinaryOp (Literal (PyBool True)) ''or'' r) ctx = Err e
      \<and> evaluate_where (BinaryOp r ''and'' (Literal (PyBool False))) ctx = Err e
      \<and> evaluate_where (BinaryOp r ''or'' (Literal (PyBool True))) ctx = Err e)"
  by (auto simp: evaluate_where_def binary_op_def split: Result.splits)

text \<open>
  C9 at concrete clauses in a context without groups: \<open>0 and group("zz")\<close>,
  \<open>1 or group("zz")\<close> and \<open>group("zz") or True\<close> fail with the error of the missing
  group although the other operand decides the answer; \<open>"" or 0\<close> is false, \<open>0 or "a"\<close>
  is true, \<open>"a" and 5\<close> is true and \<open>"a" and 0\<close> is false.
\<close>

theorem logical_operators_are_eager_witness:
  "parse_where_expression (''0 and group('' @ [dquote] @ ''zz'' @ [dquote] @ '')'')
     = Ok (BinaryOp (Literal (PyInt 0)) ''and'' (GroupAccess ''zz''))
   \<and> evaluate_where (BinaryOp (Literal (PyInt 0)) ''and'' (GroupAccess ''zz'')) example_context
     = Err ''Evaluation error: Regex group not found: zz''
   \<and> evaluate_where (BinaryOp (Literal (PyInt 1)) ''or'' (GroupAccess ''zz'')) example_context
     = Err ''Evaluation error: Regex group not found: zz''
   \<and> evaluate_where (BinaryOp (GroupAccess ''zz'') ''or'' (Literal (PyBool True))) example_context
     = Err ''Evaluation error: Regex group not found: zz''
   \<and> evaluate_where (BinaryOp (Literal (PyStr [])) ''or'' (Literal (PyInt 0))) example_context
     = Ok (PyBool False)
   \<and> evaluate_where (BinaryOp (Literal (PyInt 0)) ''or'' (Literal (PyStr ''a''))) example_context
     = Ok (PyBool True)
   \<and> evaluate_where (BinaryOp (Literal (PyStr ''a'')) ''and'' (Literal (PyInt 5))) example_context
     = Ok (PyBool True)
   \<and> evaluate_where (BinaryOp (Literal (PyStr ''a'')) ''and'' (Literal (PyInt 0))) example_context
     = Ok (PyBool False)"
proof -
  have p: "parse_where_expression (''0 and group('' @ [dquote] @ ''zz'' @ [dquote] @ '')'')
     = Ok (BinaryOp (Literal (PyInt 0)) ''and'' (GroupAccess ''zz''))"
    by code_simp
  have g: "groups example_context ''zz'' = None"
    by (simp add: example_context_def)
  note lit = logical_operators_are_eager [where ctx = example_context, THEN conjunct2, THEN conjunct2,
      THEN conjunct2, THEN conjunct2, THEN conjunct2, THEN conjunct1]
  have z: "evaluate_where (GroupAccess ''zz'') example_context
      = Err ''Evaluation error: Regex group not found: zz''"
    using logical_operators_are_eager [where ctx = example_context and name = "''zz''"] g by simp
  show ?thesis
    using p z lit
      logical_operators_are_eager [where ctx = example_context and l = "Literal (PyInt 0)"
        and r = "GroupAccess ''zz''"]
      logical_operators_are_eager [where ctx = example_context and l = "Literal (PyInt 1)"
        and r = "GroupAccess ''zz''"]
      logical_operators_are_eager [where ctx = example_context and l = "GroupAccess ''zz''"
        and r = "Literal (PyBool True)"]
      logical_operators_are_eager [where ctx = example_context and l = "Literal (PyStr [])"
        and r = "Literal (PyInt 0)"]
      logical_operators_are_eager [where ctx = example_context and l = "Literal (PyInt 0)"
        and r = "Literal (PyStr ''a'')"]
      logical_operators_are_eager [where ctx = example_context and l = "Literal (PyStr ''a'')"
        and r = "Literal (PyInt 5)"]
      logical_operators_are_eager [where ctx = example_context and l = "Literal (PyStr ''a'')"
        and r = "Literal (PyInt 0)"]
    by simp
qed


subsection \<open>Pipeline\<close>

lemma pipeline_concat_map:
  "pipeline matcher filter_fn items = concat (map (outcomes_of_item matcher filter_fn) items)"
  by (induction items) (simp_all add: outcomes_of_item_def split: Result.splits bool.splits)

text \<open>
  C7. For every finite input, the outcomes of the pipeline are the concatenation, in
  input order, of what each item contributes: a failed outcome for a read error, nothing
  for a line that does not match, and for a matched line a successful outcome carrying
  the context, nothing, or a failed outcome, as the filter answers true, false or an
  error.
\<close>

theorem pipeline_outcomes:
  "build_pipeline matcher filter_fn items = concat (map (outcomes_of_item matcher filter_fn) items)"
  by (simp add: build_pipeline_def pipeline_concat_map)

subsection \<open>Matcher\<close>

text \<open>
  C4. The regex matcher does not keep the values of \<open>groups\<close> textual. For the pattern
  \<open>/a(?P<x>b)?/\<close> and the line \<open>a\<close> the optional group takes no part in the match,
  \<open>groupdict()\<close> maps it to \<open>None\<close>, and the matcher that \<open>create_matcher\<close> returns puts
  that dictionary into the context as it is; \<open>group("x")\<close> then evaluates to \<open>None\<close>.
\<close>

theorem optional_group_maps_to_None:
  "map_outcome (\<lambda>matcher. matcher \<lparr>number = 1, content = ''a''\<rparr>)
     (create_matcher example_re_compile \<lparr>pattern = ''/a(?P<x>b)?/'', case_sensitive = True\<rparr>)
     = Returns (Ok \<lparr>line = \<lparr>number = 1, content = ''a''\<rparr>, groups = map_of [(''x'', None)]\<rparr>)
   \<and> evaluate_where (GroupAccess ''x'')
       \<lparr>line = \<lparr>number = 1, content = ''a''\<rparr>, groups = map_of [(''x'', None)]\<rparr> = Ok PyNone"
  by (simp add: create_matcher_def is_regex_pattern_def suffix_to_prefix create_regex_matcher_def
        example_re_compile_def evaluate_where_def)

lemma literal_error_matcher:
  "create_matcher compile \<lparr>pattern = ''ERROR'', case_sensitive = False\<rparr>
     = Returns (create_literal_matcher \<lparr>pattern = ''ERROR'', case_sensitive = False\<rparr>)"
proof -
  have "\<not> is_regex_pattern ''ERROR''"
    by code_simp
  then show ?thesis
    by (simp add: create_matcher_def)
qed

lemma literal_error_matches:
  "create_literal_matcher \<lparr>pattern = ''ERROR'', case_sensitive = False\<rparr> error_line
     = Ok \<lparr>line = error_line, groups = map_of []\<rparr>"
proof -
  have "sublist (lower ''ERROR'') (lower (content error_line))"
    unfolding error_line_def by code_simp
  then show ?thesis
    by (simp add: create_literal_matcher_def)
qed

lemma literal_error_skips_info:
  "create_literal_matcher \<lparr>pattern = ''ERROR'', case_sensitive = False\<rparr> info_line
     = no_match info_line"
proof -
  have "\<not> sublist (lower ''ERROR'') (lower (content info_line))"
    unfolding info_line_def by code_simp
  then show ?thesis
    by (simp add: create_literal_matcher_def)
qed

text \<open>
  C5, as stated, fails: with an empty pattern, and with the pattern \<open>/(/\<close> whose regex
  does not compile, the run returns success and every line is skipped without an outcome.
\<close>

theorem invalid_pattern_is_silent:
  "run example_re_compile (Ok [Ok error_line, Ok info_line])
     \<lparr>source = Some ''app.log'', match_pattern = [], case_flag = False, where_clauses = []\<rparr>
   = Returns (Ok (), [])
   \<and> run example_re_compile (Ok [Ok error_line, Ok info_line])
     \<lparr>source = Some ''app.log'', match_pattern = ''/(/'', case_flag = True, where_clauses = []\<rparr>
   = Returns (Ok (), [])"
  by (simp add: run_def build_pipeline_def create_matcher_def is_regex_pattern_def suffix_to_prefix
        create_regex_matcher_def example_re_compile_def)

text \<open>
  C5, amended. For an empty pattern, and for a pattern between slashes whose regex
  \<open>re.compile\<close> rejects with \<open>re.error\<close>, construction does not fail: \<open>create_matcher\<close>
  returns a matcher that fails on every line with the same message, "Invalid pattern: ''"
  or "Invalid regex pattern: " followed by the text of the error. Only when \<open>re.compile\<close>
  raises another exception is construction fatal: \<open>create_matcher\<close> raises it, and so
  does \<open>run\<close>, whatever the input lines are.
\<close>

theorem construction_with_invalid_pattern:
  "create_matcher compile \<lparr>pattern = [], case_sensitive = cs\<rparr>
     = Returns (\<lambda>l. Err (''Invalid pattern: '' @ [squote, squote]))
   \<and> (is_regex_pattern p \<and> compile (butlast (tl p)) (\<not> cs) = Re_error e \<longrightarrow>
        create_matcher compile \<lparr>pattern = p, case_sensitive = cs\<rparr>
          = Returns (\<lambda>l. Err (''Invalid regex pattern: '' @ e)))
   \<and> (is_regex_pattern p \<and> compile (butlast (tl p)) (\<not> cs) = Other_exception e \<longrightarrow>
        create_matcher compile \<lparr>pattern = p, case_sensitive = cs\<rparr> = Raises e
        \<and> run compile (Ok items)
            \<lparr>source = src, match_pattern = p, case_flag = cs, where_clauses = clauses\<rparr>
          = Raises e)"
  by (auto simp: create_matcher_def create_regex_matcher_def is_regex_pattern_def run_def)

text \<open>
  The amended C5 at the empty pattern, at the pattern \<open>/(/\<close> (\<open>re.error\<close>) and at the
  pattern \<open>/a{99999999999}/\<close> (\<open>OverflowError\<close>).
\<close>

theorem construction_with_invalid_pattern_witness:
  "is_regex_pattern ''/(/''
   \<and> example_re_compile ''('' False = Re_error ''missing ), unterminated subpattern at position 0''
   \<and> create_matcher example_re_compile \<lparr>pattern = ''/(/'', case_sensitive = True\<rparr>
       = Returns (\<lambda>l. Err ''Invalid regex pattern: missing ), unterminated subpattern at position 0'')
   \<and> create_matcher example_re_compile \<lparr>pattern = [], case_sensitive = False\<rparr>
       = Returns (\<lambda>l. Err (''Invalid pattern: '' @ [squote, squote]))
   \<and> is_regex_pattern ''/a{99999999999}/''
   \<and> example_re_compile ''a{99999999999}'' False = Other_exception ''the repetition number is too large''
   \<and> create_matcher example_re_compile \<lparr>pattern = ''/a{99999999999}/'', case_sensitive = True\<rparr>
       = Raises ''the repetition number is too large''
   \<and> run example_re_compile (Ok [Ok error_line, Ok info_line])
       \<lparr>source = Some ''app.log'', match_pattern = ''/a{99999999999}/'', case_flag = True,
        where_clauses = []\<rparr>
       = Raises ''the repetition number is too large''"
proof -
  have r: "is_regex_pattern ''/(/''" "is_regex_pattern ''/a{99999999999}/''"
    by code_simp+
  have c: "example_re_compile (butlast (tl ''/(/'')) (\<not> True)
      = Re_error ''missing ), unterminated subpattern at position 0''"
    "example_re_compile (butlast (tl ''/a{99999999999}/'')) (\<not> True)
      = Other_exception ''the repetition number is too large''"
    by (simp_all add: example_re_compile_def)
  show ?thesis
    using construction_with_invalid_pattern [where compile = example_re_compile and cs = True
        and p = "''/(/''" and e = "''missing ), unterminated subpattern at position 0''"]
      construction_with_invalid_pattern [where compile = example_re_compile and cs = False
        and p = "''/(/''" and e = "''missing ), unterminated subpattern at position 0''"]
      construction_with_invalid_pattern [where compile = example_re_compile and cs = True
        and p = "''/a{99999999999}/''" and e = "''the repetition number is too large''"
        and items = "[Ok error_line, Ok info_line]" and src = "Some ''app.log''" and clauses = "[]"]
      r c
    by (simp add: example_re_compile_def)
qed

subsection \<open>Filter construction\<close>

lemma parse_all_first_failure:
  assumes "\<forall>y \<in> set pre. \<exists>ast. parse_where_expression y = Ok ast"
    and "parse_where_expression x = Err error"
  shows "parse_all (pre @ x # post) acc = Err error"
  using assms by (induction pre arbitrary: acc) auto

lemma create_filter_first_failure:
  assumes "\<forall>y \<in> set pre. \<exists>ast. parse_where_expression y = Ok ast"
    and "parse_where_expression x = Err error"
  shows "create_filter (pre @ x # post) = (\<lambda>context. Err (''Parse error: '' @ error))"
  using parse_all_first_failure [OF assms] by (simp add: create_filter_def)

text \<open>
  C1, as stated, fails: with the malformed clause \<open>line.length @ 5\<close> the run returns
  success, and the line that matches the pattern yields a failed outcome that carries
  the parse error.
\<close>

theorem malformed_clause_yields_outcomes:
  "run example_re_compile (Ok [Ok error_line, Ok info_line])
     \<lparr>source = Some ''app.log'', match_pattern = ''ERROR'', case_flag = False,
      where_clauses = [''line.length @ 5'']\<rparr>
   = Returns (Ok (), [Err ''Parse error: Unexpected token after expression: 5''])"
proof -
  have "parse_where_expression ''line.length @ 5'' = Err ''Unexpected token after expression: 5''"
    by code_simp
  then have "create_filter [''line.length @ 5'']
      = (\<lambda>context. Err ''Parse error: Unexpected token after expression: 5'')"
    by (simp add: create_filter_def)
  then show ?thesis
    by (simp add: run_def build_pipeline_def literal_error_matcher literal_error_matches
          literal_error_skips_info no_match_def)
qed

text \<open>
  C1, amended. When a where-clause fails to parse (\<open>x\<close>, the first one that does),
  nothing fails at the construction of the filter: \<open>create_filter\<close> returns the filter
  that answers every context with "Parse error: " and the message of that clause. With
  the matcher that \<open>create_matcher\<close> returns, the run returns success; its outcomes are,
  in input order, every read error and, for every line the matcher matches, one failed
  outcome with that message. (Where \<open>create_matcher\<close> itself raises, the run raises the
  same exception.)
\<close>

theorem parse_failure_is_deferred:
  assumes "\<forall>y \<in> set pre. \<exists>ast. parse_where_expression y = Ok ast"
    and "parse_where_expression x = Err error"
  shows "create_filter (pre @ x # post) = (\<lambda>context. Err (''Parse error: '' @ error))
    \<and> run compile (Ok items)
         \<lparr>source = src, match_pattern = p, case_flag = cs, where_clauses = pre @ x # post\<rparr>
       = (case create_matcher compile \<lparr>pattern = p, case_sensitive = cs\<rparr> of
            Raises e \<Rightarrow> Raises e
          | Returns matcher \<Rightarrow>
              Returns (Ok (),
                concat (map (\<lambda>item.
                  case item of
                    Err e \<Rightarrow> [Err e]
                  | Ok l \<Rightarrow>
                      (case matcher l of
                         Err e \<Rightarrow> []
                       | Ok context \<Rightarrow> [Err (''Parse error: '' @ error)])) items)))"
proof -
  have f: "create_filter (pre @ x # post) = (\<lambda>context. Err (''Parse error: '' @ error))"
    using create_filter_first_failure [OF assms] .
  have "outcomes_of_item m (\<lambda>context. Err (''Parse error: '' @ error))
      = (\<lambda>item. case item of Err e \<Rightarrow> [Err e]
          | Ok l \<Rightarrow> (case m l of Err e \<Rightarrow> [] | Ok context \<Rightarrow> [Err (''Parse error: '' @ error)]))" for m
    by (auto simp: outcomes_of_item_def fun_eq_iff split: Result.splits)
  then show ?thesis
    by (simp add: f run_def build_pipeline_def pipeline_concat_map split: outcome.splits)
qed

text \<open>
  The amended C1 for the clauses \<open>line.length > 0\<close>, \<open>line.length > 1 > 2\<close> and \<open>(\<close>,
  over a line that does not match, a read error and a line that matches.
\<close>

theorem parse_failure_is_deferred_witness:
  "create_filter [''line.length > 0'', ''line.length > 1 > 2'', ''(''] example_context
     = Err ''Parse error: Unexpected token after expression: >''
   \<and> run example_re_compile (Ok [Ok info_line, Err ''Read error: disk'', Ok error_line])
       \<lparr>source = Some ''app.log'', match_pattern = ''ERROR'', case_flag = False,
        where_clauses = [''line.length > 0'', ''line.length > 1 > 2'', ''('']\<rparr>
     = Returns (Ok (),
         [Err ''Read error: disk'', Err ''Parse error: Unexpected token after expression: >''])"
proof -
  have pre: "\<forall>y \<in> set [''line.length > 0'']. \<exists>ast. parse_where_expression y = Ok ast"
  proof -
    have "parse_where_expression ''line.length > 0''
        = Ok (BinaryOp (Attribute ''line'' ''length'') ''>'' (Literal (PyInt 0)))"
      by code_simp
    then show ?thesis by simp
  qed
  have x: "parse_where_expression ''line.length > 1 > 2'' = Err ''Unexpected token after expression: >''"
    by code_simp
  show ?thesis
    using parse_failure_is_deferred [OF pre x, of "[''('']" example_re_compile
        "[Ok info_line, Err ''Read error: disk'', Ok error_line]" "Some ''app.log''" "''ERROR''" False]
    by (simp add: literal_error_matcher literal_error_matches literal_error_skips_info no_match_def)
qed

end
